theory Spec2Isabelle
  imports Complex_Main
begin

section \<open>Material take-off: reconciliation and consolidation\<close>

text \<open>
  A shallow embedding of the reconciliation engine of the material take-off application:
  \<^item> \<open>validateAreaCalculation\<close> (services/pythonBridge.ts), the hybrid validation of
    the AI area against the computer-vision area;
  \<^item> the validation block of \<open>analyzePdfWithGemini\<close> (services/geminiService.ts);
  \<^item> \<open>analyzePDFs\<close> and \<open>getConsolidatedSummary\<close> (App.tsx).

  Conventions of the embedding.
  \<^item> A JavaScript number is a \<open>real\<close>: the arithmetic is exact. The values come out of
    \<open>JSON.parse\<close>, so they are finite; rounding of IEEE doubles is not modelled.
  \<^item> An optional property (\<open>x?: T\<close>, or a property that the parsed JSON may lack) is a
    \<open>T option\<close>, \<open>None\<close> standing for \<open>undefined\<close>.
  \<^item> A string is a list of code units below 256; the application's material names,
    file names and messages are kept as such lists.
\<close>

subsection \<open>Truthiness of optional values\<close>

text \<open>\<open>!x\<close> on an optional number: \<open>undefined\<close> and \<open>0\<close> are falsy.\<close>

definition falsy_number :: "real option \<Rightarrow> bool" where
  "falsy_number x = (case x of None \<Rightarrow> True | Some v \<Rightarrow> v = 0)"

text \<open>\<open>x || 0\<close> on an optional number.\<close>

definition number_or_zero :: "real option \<Rightarrow> real" where
  "number_or_zero x = (case x of None \<Rightarrow> 0 | Some v \<Rightarrow> if v = 0 then 0 else v)"

text \<open>\<open>x || ''\<close> on an optional string.\<close>

definition string_or_empty :: "string option \<Rightarrow> string" where
  "string_or_empty x = (case x of None \<Rightarrow> [] | Some s \<Rightarrow> if s = [] then [] else s)"

text \<open>Truthiness of an optional boolean, as in \<open>if (r.is_simple_rectangle)\<close>.\<close>

definition truthy_bool :: "bool option \<Rightarrow> bool" where
  "truthy_bool x = (case x of None \<Rightarrow> False | Some b \<Rightarrow> b)"

subsection \<open>services/pythonBridge.ts: validateAreaCalculation\<close>

text \<open>
  \<open>PythonAreaResult\<close>, with the properties that \<open>validateAreaCalculation\<close> reads.
\<close>

record PythonAreaResult =
  success :: bool
  shape_type :: "string option"
  is_simple_rectangle :: "bool option"
  total_area_m2 :: "real option"

datatype Recommendation = use_ai | use_python | manual_review

text \<open>
  The message of the result is a template string around
  \<open>differencePercent.toFixed(1)\<close>; the embedding keeps which template was used and the
  values placed in it, not the rendered digits.
\<close>

datatype ValidationMessage =
    PythonUnavailable
  | Validated real
  | SimpleRectangle real
  | SignificantDifference real "string option"
  | ExceedsTolerance real

record ValidationResult =
  isValid :: bool
  pythonArea :: real
  difference :: real
  differencePercent :: real
  recommendation :: Recommendation
  message :: ValidationMessage

text \<open>The record returned by the first branch of \<open>validateAreaCalculation\<close>.\<close>

definition unavailableResult :: ValidationResult where
  "unavailableResult =
     \<lparr> isValid = True, pythonArea = 0, difference = 0, differencePercent = 0,
       recommendation = use_ai, message = PythonUnavailable \<rparr>"

text \<open>
  The third argument is optional in the source (\<open>tolerancePercent: number = 15\<close>):
  \<open>None\<close> is a call that leaves it out.
  The guard \<open>!pythonResult.success || !pythonResult.total_area_m2\<close> is the first test;
  past it \<open>total_area_m2\<close> is a number other than zero, bound to \<open>pythonArea\<close>.
\<close>

definition validateAreaCalculation ::
  "real \<Rightarrow> PythonAreaResult \<Rightarrow> real option \<Rightarrow> ValidationResult" where
  "validateAreaCalculation aiArea pythonResult tolerance =
     (let tolerancePercent = (case tolerance of None \<Rightarrow> 15 | Some t \<Rightarrow> t) in
      if \<not> success pythonResult \<or> falsy_number (total_area_m2 pythonResult)
      then unavailableResult
      else
        (case total_area_m2 pythonResult of
           None \<Rightarrow> unavailableResult
         | Some pythonArea' \<Rightarrow>
            (let difference' = \<bar>aiArea - pythonArea'\<bar>;
                 differencePercent' = (difference' / pythonArea') * 100
             in
               if differencePercent' \<le> tolerancePercent then
                 \<lparr> isValid = True, pythonArea = pythonArea', difference = difference',
                   differencePercent = differencePercent',
                   recommendation = use_ai, message = Validated differencePercent' \<rparr>
               else if truthy_bool (is_simple_rectangle pythonResult) then
                 \<lparr> isValid = False, pythonArea = pythonArea', difference = difference',
                   differencePercent = differencePercent',
                   recommendation = use_python,
                   message = SimpleRectangle differencePercent' \<rparr>
               else if \<not> truthy_bool (is_simple_rectangle pythonResult)
                       \<and> differencePercent' > 20 then
                 \<lparr> isValid = False, pythonArea = pythonArea', difference = difference',
                   differencePercent = differencePercent',
                   recommendation = use_python,
                   message = SignificantDifference differencePercent'
                               (shape_type pythonResult) \<rparr>
               else
                 \<lparr> isValid = False, pythonArea = pythonArea', difference = difference',
                   differencePercent = differencePercent',
                   recommendation = manual_review,
                   message = ExceedsTolerance differencePercent' \<rparr>)))"

subsection \<open>String.prototype.toLowerCase and String.prototype.trim\<close>

text \<open>
  On code units below 256 \<open>toLowerCase\<close> maps \<open>A\<close>..\<open>Z\<close> (65..90) and the Latin-1
  capitals 192..222, the multiplication sign 215 apart, to the code unit 32 above, and
  leaves every other code unit as it is. \<open>trim\<close> strips white space and line
  terminators from both ends: tab, line feed, vertical tab, form feed, carriage return,
  space and the no-break space 160.
\<close>

definition toLowerCase_unit :: "char \<Rightarrow> char" where
  "toLowerCase_unit c =
     (let n = (of_char c :: nat) in
      if (65 \<le> n \<and> n \<le> 90) \<or> (192 \<le> n \<and> n \<le> 222 \<and> n \<noteq> 215)
      then char_of (n + 32) else c)"

definition toLowerCase :: "string \<Rightarrow> string" where
  "toLowerCase s = map toLowerCase_unit s"

definition isWhiteSpace :: "char \<Rightarrow> bool" where
  "isWhiteSpace c =
     (let n = (of_char c :: nat) in
      n = 9 \<or> n = 10 \<or> n = 11 \<or> n = 12 \<or> n = 13 \<or> n = 32 \<or> n = 160)"

definition trimStart :: "string \<Rightarrow> string" where
  "trimStart s = dropWhile isWhiteSpace s"

definition trimEnd :: "string \<Rightarrow> string" where
  "trimEnd s = rev (dropWhile isWhiteSpace (rev s))"

definition trim :: "string \<Rightarrow> string" where
  "trim s = trimEnd (trimStart s)"

text \<open>The grouping key of \<open>getConsolidatedSummary\<close>: \<open>m.material.toLowerCase().trim()\<close>.\<close>

definition canonicalize :: "string \<Rightarrow> string" where
  "canonicalize name = trim (toLowerCase name)"

subsection \<open>types.ts\<close>

text \<open>
  A value as \<open>typeof\<close> sees it. The \<open>material\<close> property of a parsed entry is typed
  \<open>string\<close>, and \<open>getConsolidatedSummary\<close> tests at run time that it is one.
\<close>

datatype js_value = JUndefined | JNull | JBoolean bool | JNumber real | JString string

text \<open>The property \<open>notes\<close> of a material is written \<open>notes'\<close>.\<close>

record Material =
  material :: js_value
  code :: "string option"
  area :: "real option"
  unit :: "string option"
  confidence :: "real option"
  notes' :: "string option"

datatype PlanQuality = good | fair | poor

record Summary =
  totalArea :: "real option"
  materialCount :: "nat option"
  planQuality :: "PlanQuality option"

text \<open>
  \<open>ValidationInfo\<close>. Its optional properties carry the prefix \<open>info_\<close> where the name
  is also a property of the result of \<open>validateAreaCalculation\<close>.
\<close>

record ValidationInfo =
  pythonUsed :: bool
  info_pythonArea :: "real option"
  info_aiArea :: "real option"
  info_difference :: "real option"
  info_differencePercent :: "real option"
  info_recommendation :: "Recommendation option"
  validationMessage :: "string option"

text \<open>
  \<open>AnalysisResult\<close>. An element of \<open>materials\<close> is \<open>None\<close> when the parsed array holds
  \<open>null\<close> there (the \<open>!m\<close> of the consolidation); \<open>materials\<close> itself is \<open>None\<close> when
  the property is missing (the \<open>materials?.forEach\<close>).
\<close>

record AnalysisResult =
  isRoofRelated :: bool
  documentType :: string
  language :: string
  scale :: string
  materials :: "Material option list option"
  summary :: "Summary option"
  validation :: "ValidationInfo option"

record ResultFile = AnalysisResult +
  fileName :: string

text \<open>
  \<open>ConsolidatedMaterial\<close> and \<open>ConsolidatedSummary\<close>; the prefixes \<open>cm_\<close> and \<open>cs_\<close>
  keep their properties apart from those of \<open>Material\<close>, \<open>Summary\<close> and
  \<open>AnalysisResult\<close>. \<open>cm_unit\<close> is copied from \<open>m.unit\<close> as it is found.
\<close>

record ConsolidatedMaterial =
  cm_material :: string
  cm_code :: string
  cm_area :: real
  cm_unit :: "string option"
  cm_confidence :: real
  sources :: "string list"

record ConsolidatedSummary =
  cs_materials :: "ConsolidatedMaterial list"
  cs_totalArea :: real
  roofPlanCount :: nat
  totalPlanCount :: nat

subsection \<open>The JavaScript Map of the consolidation\<close>

text \<open>
  A \<open>Map\<close> keeps its keys in the order of their first insertion; \<open>set\<close> on a key that
  is present replaces the value where it stands, and \<open>values()\<close> lists the values in
  that order. The map is a list of pairs with at most one pair for a key.
\<close>

fun Map_get :: "('k \<times> 'v) list \<Rightarrow> 'k \<Rightarrow> 'v option" where
  "Map_get [] k = None"
| "Map_get ((k', v) # kvs) k = (if k' = k then Some v else Map_get kvs k)"

definition Map_has :: "('k \<times> 'v) list \<Rightarrow> 'k \<Rightarrow> bool" where
  "Map_has kvs k = (Map_get kvs k \<noteq> None)"

fun Map_set :: "('k \<times> 'v) list \<Rightarrow> 'k \<Rightarrow> 'v \<Rightarrow> ('k \<times> 'v) list" where
  "Map_set [] k v = [(k, v)]"
| "Map_set ((k', v') # kvs) k v =
     (if k' = k then (k, v) # kvs else (k', v') # Map_set kvs k v)"

definition Map_values :: "('k \<times> 'v) list \<Rightarrow> 'v list" where
  "Map_values kvs = map snd kvs"

subsection \<open>App.tsx: getConsolidatedSummary\<close>

text \<open>
  The body of the inner \<open>forEach\<close>, for one element \<open>m\<close> of \<open>result.materials\<close>:
  return at once when \<open>!m\<close> or \<open>typeof m.material !== 'string'\<close>; otherwise look the key
  up, and either rebuild the entry found (\<open>...existing\<close> with \<open>area\<close>, \<open>confidence\<close> and
  \<open>sources\<close> replaced) or store a new one. \<open>materialMap.has(key)\<close> holds exactly when
  \<open>materialMap.get(key)\<close> finds an entry, so the two are one \<open>case\<close>.
\<close>

definition consolidateMaterial ::
  "string \<Rightarrow> (string \<times> ConsolidatedMaterial) list \<Rightarrow> Material option
     \<Rightarrow> (string \<times> ConsolidatedMaterial) list" where
  "consolidateMaterial resultFileName materialMap mo =
     (case mo of
        None \<Rightarrow> materialMap
      | Some m \<Rightarrow>
         (case material m of
            JString name \<Rightarrow>
              (let key = trim (toLowerCase name) in
               case Map_get materialMap key of
                 Some existing \<Rightarrow>
                   Map_set materialMap key
                     (existing
                        \<lparr> cm_area := cm_area existing + number_or_zero (area m),
                          cm_confidence :=
                            (cm_confidence existing * real (length (sources existing))
                               + number_or_zero (confidence m))
                            / (real (length (sources existing)) + 1),
                          sources := sources existing @ [resultFileName] \<rparr>)
               | None \<Rightarrow>
                   Map_set materialMap key
                     \<lparr> cm_material = name,
                       cm_code = string_or_empty (code m),
                       cm_area = number_or_zero (area m),
                       cm_unit = unit m,
                       cm_confidence = number_or_zero (confidence m),
                       sources = [resultFileName] \<rparr>)
          | _ \<Rightarrow> materialMap))"

text \<open>The body of the outer \<open>forEach\<close>: \<open>result.materials?.forEach(...)\<close>.\<close>

definition consolidateResult ::
  "(string \<times> ConsolidatedMaterial) list \<Rightarrow> ResultFile
     \<Rightarrow> (string \<times> ConsolidatedMaterial) list" where
  "consolidateResult materialMap result =
     (case materials result of
        None \<Rightarrow> materialMap
      | Some ms \<Rightarrow> foldl (consolidateMaterial (fileName result)) materialMap ms)"

definition getConsolidatedSummary :: "ResultFile list \<Rightarrow> ConsolidatedSummary option" where
  "getConsolidatedSummary results =
     (let roofResults = filter isRoofRelated results in
      if length roofResults = 0 then None
      else
        (let materialMap = foldl consolidateResult [] roofResults;
             consolidatedMaterials = Map_values materialMap;
             totalArea' = foldl (\<lambda>acc m. acc + cm_area m) 0 consolidatedMaterials
         in Some \<lparr> cs_materials = consolidatedMaterials,
                   cs_totalArea = totalArea',
                   roofPlanCount = length roofResults,
                   totalPlanCount = length results \<rparr>))"

subsection \<open>services/geminiService.ts: analyzePdfWithGemini\<close>

text \<open>
  What a \<open>catch\<close> receives: an \<open>Error\<close> with its message, or any other thrown value.
\<close>

datatype thrown = Error string | NotAnError

text \<open>
  The block after \<open>JSON.parse\<close>. \<open>probe\<close> is the outcome of
  \<open>await checkPythonAvailability()\<close> inside the inner \<open>try\<close>: the boolean it resolves
  to, or what it throws. In each of the three branches the object literal assigned to
  \<open>analysisResults.validation\<close> has the two properties \<open>pythonUsed\<close> and
  \<open>validationMessage\<close> and no other.
\<close>

definition validationInfo :: "string \<Rightarrow> ValidationInfo" where
  "validationInfo msg =
     \<lparr> pythonUsed = False, info_pythonArea = None, info_aiArea = None,
       info_difference = None, info_differencePercent = None,
       info_recommendation = None, validationMessage = Some msg \<rparr>"

definition attachValidation :: "thrown + bool \<Rightarrow> AnalysisResult \<Rightarrow> AnalysisResult" where
  "attachValidation probe analysisResults =
     (if isRoofRelated analysisResults
         \<and> (case summary analysisResults of
               None \<Rightarrow> False
             | Some s \<Rightarrow> \<not> falsy_number (totalArea s))
      then
        (case probe of
           Inr pythonAvailable \<Rightarrow>
             (if pythonAvailable then
                analysisResults \<lparr> validation := Some (validationInfo
                  ''Python validation available but requires server-side integration'') \<rparr>
              else
                analysisResults \<lparr> validation := Some (validationInfo
                  ''Python validation unavailable - install Python dependencies to enable'') \<rparr>)
         | Inl err \<Rightarrow>
             analysisResults \<lparr> validation := Some (validationInfo
               ''Python validation failed - using AI-only result'') \<rparr>)
      else analysisResults)"

text \<open>
  The whole call, over the outcomes of its collaborators: \<open>base64\<close> is the rejection
  of \<open>Promise.all(allFiles.map(fileToBase64))\<close> if there is one (it is awaited before the
  \<open>try\<close>, so it leaves the function as it is); \<open>response\<close> is what
  \<open>ai.models.generateContent\<close> throws or the \<open>text\<close> of its response; \<open>parse\<close> is
  \<open>JSON.parse\<close>. Whatever is thrown inside the \<open>try\<close> is thrown again as an \<open>Error\<close>
  with a new message.
\<close>

definition rethrow :: "thrown \<Rightarrow> thrown" where
  "rethrow err =
     (case err of
        Error msg \<Rightarrow> Error (''Gemini API error: '' @ msg)
      | NotAnError \<Rightarrow> Error ''An unknown error occurred during Gemini API call.'')"

definition analyzePdfWithGemini ::
  "thrown option \<Rightarrow> thrown + string option \<Rightarrow> (string \<Rightarrow> thrown + AnalysisResult)
     \<Rightarrow> thrown + bool \<Rightarrow> thrown + AnalysisResult" where
  "analyzePdfWithGemini base64 response parse probe =
     (case base64 of
        Some err \<Rightarrow> Inl err
      | None \<Rightarrow>
         (case response of
            Inl err \<Rightarrow> Inl (rethrow err)
          | Inr responseText \<Rightarrow>
             (if string_or_empty responseText = [] then
                Inl (rethrow (Error ''API returned an empty response.''))
              else
                (case parse (string_or_empty responseText) of
                   Inl err \<Rightarrow> Inl (rethrow err)
                 | Inr analysisResults \<Rightarrow> Inr (attachValidation probe analysisResults)))))"

subsection \<open>App.tsx: analyzePDFs\<close>

record File =
  name :: string

text \<open>
  \<open>analysisStage\<close> is either the empty string or the template
  \<open>Analyzing file ${i + 1} of ${files.length}: ${files[i].name}\<close>, kept with its three
  values.
\<close>

datatype AnalysisStage = NoStage | Analyzing nat nat string

record AppState =
  files :: "File list"
  processing :: bool
  results :: "ResultFile list"
  error :: "string option"
  analysisStage :: AnalysisStage

text \<open>The object pushed on \<open>allResults\<close>: \<open>{ fileName: files[i].name, ...analysisResults }\<close>.\<close>

definition resultFile :: "string \<Rightarrow> AnalysisResult \<Rightarrow> ResultFile" where
  "resultFile fname analysisResults =
     \<lparr> isRoofRelated = isRoofRelated analysisResults,
       documentType = documentType analysisResults,
       language = language analysisResults,
       scale = scale analysisResults,
       materials = materials analysisResults,
       summary = summary analysisResults,
       validation = validation analysisResults,
       fileName = fname \<rparr>"

text \<open>
  The \<open>for\<close> loop inside the \<open>try\<close>. \<open>analyze i\<close> is the outcome of
  \<open>await analyzePdfWithGemini(files, i)\<close>: the loop awaits it once for each index it
  reaches, so a function of the index stands for any behaviour of the engine. The loop
  returns what was thrown, if anything, with the state as the \<open>set...\<close> calls left it.
  \<open>files\<close> is the array captured by the closure and does not change during the run.
  The earlier revision of App.tsx has the same loop; it hands the engine the file, the
  context files and a summary of \<open>allResults\<close> instead, which \<open>analyze i\<close> covers too.
\<close>

function analyzePDFs_loop ::
  "(nat \<Rightarrow> thrown + AnalysisResult) \<Rightarrow> nat \<Rightarrow> ResultFile list \<Rightarrow> AppState
     \<Rightarrow> thrown option \<times> AppState" where
  "analyzePDFs_loop analyze i allResults st =
     (if i < length (files st) then
        (let st1 = st \<lparr> analysisStage :=
                       Analyzing (i + 1) (length (files st)) (name (files st ! i)) \<rparr>
         in case analyze i of
              Inl err \<Rightarrow> (Some err, st1)
            | Inr analysisResults \<Rightarrow>
               (let allResults' =
                      allResults @ [resultFile (name (files st ! i)) analysisResults]
                in analyzePDFs_loop analyze (i + 1) allResults'
                     (st1 \<lparr> results := allResults' \<rparr>)))
      else (None, st))"
  by pat_completeness auto
termination
  by (relation "measure (\<lambda>(analyze, i, allResults, st). length (files st) - i)") auto

text \<open>
  \<open>analyzePDFs\<close>: nothing happens on an empty file list; otherwise the three resets,
  the loop, then the end of the \<open>try\<close> or the \<open>catch\<close>, then the \<open>finally\<close>.
\<close>

definition analyzePDFs :: "(nat \<Rightarrow> thrown + AnalysisResult) \<Rightarrow> AppState \<Rightarrow> AppState" where
  "analyzePDFs analyze st =
     (if length (files st) = 0 then st
      else
        (let st0 = st \<lparr> processing := True, error := None, results := [] \<rparr> in
         case analyzePDFs_loop analyze 0 [] st0 of
           (None, st1) \<Rightarrow>
             st1 \<lparr> analysisStage := NoStage, processing := False \<rparr>
         | (Some err, st1) \<Rightarrow>
             st1 \<lparr> error :=
                     Some (case err of
                             Error msg \<Rightarrow> ''Analysis failed: '' @ msg
                           | NotAnError \<Rightarrow> ''An unknown error occurred.''),
                   analysisStage := NoStage,
                   processing := False \<rparr>))"

subsection \<open>Notions used to state the properties\<close>


text \<open>
  An element of \<open>materials\<close> passes the test of the consolidation when it is an object
  whose \<open>material\<close> is a string.
\<close>

definition hasStringName :: "Material option \<Rightarrow> bool" where
  "hasStringName mo =
     (case mo of
        None \<Rightarrow> False
      | Some m \<Rightarrow> (case material m of JString n \<Rightarrow> True | _ \<Rightarrow> False))"

text \<open>A document with the elements that do not pass the test taken out.\<close>

definition withoutSkipped :: "ResultFile \<Rightarrow> ResultFile" where
  "withoutSkipped r = r \<lparr> materials := map_option (filter hasStringName) (materials r) \<rparr>"

text \<open>The grouping key of an element, when it has one.\<close>

definition entryKey :: "Material option \<Rightarrow> string option" where
  "entryKey mo =
     (case mo of
        None \<Rightarrow> None
      | Some m \<Rightarrow> (case material m of JString n \<Rightarrow> Some (canonicalize n) | _ \<Rightarrow> None))"

text \<open>
  The elements that the two nested \<open>forEach\<close> visit, in the order of the visit, each
  with the file name of its document.
\<close>

definition materialEntries :: "ResultFile list \<Rightarrow> (string \<times> Material option) list" where
  "materialEntries rs =
     concat (map (\<lambda>r. case materials r of
                         None \<Rightarrow> []
                       | Some ms \<Rightarrow> map (Pair (fileName r)) ms)
                 (filter isRoofRelated rs))"

text \<open>The first element visited whose key is \<open>k\<close>.\<close>

definition firstSeen :: "string \<Rightarrow> ResultFile list \<Rightarrow> (string \<times> Material option) option" where
  "firstSeen k rs = find (\<lambda>(f, mo). entryKey mo = Some k) (materialEntries rs)"

text \<open>
  The three properties of a consolidated material that a merge copies from
  \<open>existing\<close>, and the values they are given when the entry is created.
\<close>

definition groupNames :: "ConsolidatedMaterial \<Rightarrow> string \<times> string \<times> string option" where
  "groupNames c = (cm_material c, cm_code c, cm_unit c)"

definition seedNames :: "string \<times> Material option \<Rightarrow> (string \<times> string \<times> string option) option" where
  "seedNames e =
     (case snd e of
        None \<Rightarrow> None
      | Some m \<Rightarrow>
         (case material m of
            JString n \<Rightarrow> Some (n, string_or_empty (code m), unit m)
          | _ \<Rightarrow> None))"

subsection \<open>Example inputs\<close>

text \<open>
  Two roof plans that list the same membrane as \<open>EPDM\<close> and as \<open> epdm \<close>; a site
  plan that is not roof related; a roof plan whose material list holds a \<open>null\<close>, an
  entry without a name, an entry whose name is a number, and one well-formed entry.
\<close>

definition epdmDocA :: ResultFile where
  "epdmDocA =
     \<lparr> isRoofRelated = True, documentType = ''roof plan'', language = ''Dutch'',
       scale = ''1:100'',
       materials = Some [Some \<lparr> material = JString ''EPDM'', code = Some ''DRL'',
                                area = Some 50, unit = Some ''m2'',
                                confidence = Some (8 / 10), notes' = None \<rparr>],
       summary = None, validation = None, fileName = ''a.pdf'' \<rparr>"

definition epdmDocB :: ResultFile where
  "epdmDocB =
     \<lparr> isRoofRelated = True, documentType = ''detail sheet'', language = ''Dutch'',
       scale = ''1:20'',
       materials = Some [Some \<lparr> material = JString '' epdm '', code = Some ''TOP'',
                                area = Some 30, unit = Some ''sqm'',
                                confidence = Some (6 / 10), notes' = None \<rparr>],
       summary = None, validation = None, fileName = ''b.pdf'' \<rparr>"

definition sitePlanDoc :: ResultFile where
  "sitePlanDoc =
     \<lparr> isRoofRelated = False, documentType = ''site plan'', language = ''Dutch'',
       scale = ''1:200'',
       materials = Some [Some \<lparr> material = JString ''asphalt'', code = None,
                                area = Some 400, unit = Some ''m2'',
                                confidence = Some (9 / 10), notes' = None \<rparr>],
       summary = None, validation = None, fileName = ''c.pdf'' \<rparr>"

definition malformedDoc :: ResultFile where
  "malformedDoc =
     \<lparr> isRoofRelated = True, documentType = ''roof plan'', language = ''English'',
       scale = ''1:50'',
       materials = Some [None,
                         Some \<lparr> material = JUndefined, code = None, area = Some 10,
                                unit = Some ''m2'', confidence = Some 1, notes' = None \<rparr>,
                         Some \<lparr> material = JNumber 7, code = None, area = Some 20,
                                unit = Some ''m2'', confidence = Some 1, notes' = None \<rparr>,
                         Some \<lparr> material = JString ''Bitumen'', code = None, area = None,
                                unit = None, confidence = None, notes' = None \<rparr>],
       summary = None, validation = None, fileName = ''d.pdf'' \<rparr>"

text \<open>The group of \<open>EPDM\<close> after the first document, and the entry of the second.\<close>

definition epdmGroup :: ConsolidatedMaterial where
  "epdmGroup =
     \<lparr> cm_material = ''EPDM'', cm_code = ''DRL'', cm_area = 50, cm_unit = Some ''m2'',
       cm_confidence = 8 / 10, sources = [''a.pdf''] \<rparr>"

definition epdmEntryB :: Material where
  "epdmEntryB =
     \<lparr> material = JString '' epdm '', code = Some ''TOP'', area = Some 30,
       unit = Some ''sqm'', confidence = Some (6 / 10), notes' = None \<rparr>"

text \<open>
  A batch of three files, and an engine that fails on the second of them (index 1).
\<close>

definition threeFiles :: AppState where
  "threeFiles =
     \<lparr> files = [\<lparr> name = ''a.pdf'' \<rparr>, \<lparr> name = ''b.pdf'' \<rparr>, \<lparr> name = ''c.pdf'' \<rparr>],
       processing = False, results = [], error = None, analysisStage = NoStage \<rparr>"

definition plainAnalysis :: AnalysisResult where
  "plainAnalysis =
     \<lparr> isRoofRelated = True, documentType = ''roof plan'', language = ''Dutch'',
       scale = ''1:100'', materials = Some [], summary = None, validation = None \<rparr>"

definition failsAtSecond :: "nat \<Rightarrow> thrown + AnalysisResult" where
  "failsAtSecond i = (if i = 1 then Inl (Error ''Gemini API error: 500'') else Inr plainAnalysis)"

text \<open>A parsed response for a roof plan with a total area, and no validation yet.\<close>

definition roofAnalysis :: AnalysisResult where
  "roofAnalysis =
     \<lparr> isRoofRelated = True, documentType = ''roof plan'', language = ''Dutch'',
       scale = ''1:100'', materials = Some [],
       summary = Some \<lparr> totalArea = Some 120, materialCount = Some 0,
                        planQuality = Some good \<rparr>,
       validation = None \<rparr>"

section \<open>Properties\<close>

subsection \<open>The decision ladder of the reconciler\<close>





subsection \<open>A secondary area of zero\<close>

text \<open>
  Claim C5 says that a secondary estimate with area 0 gives \<open>percentDelta = 100\<close> for a
  primary other than 0. The guard of \<open>validateAreaCalculation\<close> takes the area 0 for
  a missing one: a primary of 50 against a secondary area of 0 is returned as valid with
  \<open>differencePercent = 0\<close>.
\<close>

theorem zero_secondary_counterexample:
  "differencePercent (validateAreaCalculation 50
       \<lparr> success = True, shape_type = None, is_simple_rectangle = Some False,
         total_area_m2 = Some 0 \<rparr> None) \<noteq> 100
   \<and> differencePercent (validateAreaCalculation 50
       \<lparr> success = True, shape_type = None, is_simple_rectangle = Some False,
         total_area_m2 = Some 0 \<rparr> None) = 0
   \<and> isValid (validateAreaCalculation 50
       \<lparr> success = True, shape_type = None, is_simple_rectangle = Some False,
         total_area_m2 = Some 0 \<rparr> None)"
  by (simp add: validateAreaCalculation_def falsy_number_def unavailableResult_def)

text \<open>
  Claim C5, amended. A secondary estimate whose area is 0 is treated as unavailable,
  whatever the primary and the tolerance are: the result is valid, with \<open>pythonArea\<close>,
  \<open>difference\<close> and \<open>differencePercent\<close> all 0 and the recommendation \<open>use_ai\<close>.
\<close>

theorem zero_secondary_is_unavailable:
  "total_area_m2 r = Some 0 \<longrightarrow>
     validateAreaCalculation p r tol =
       \<lparr> isValid = True, pythonArea = 0, difference = 0, differencePercent = 0,
         recommendation = use_ai, message = PythonUnavailable \<rparr>"
  by (simp add: validateAreaCalculation_def falsy_number_def unavailableResult_def)

theorem zero_secondary_is_unavailable_witness:
  "total_area_m2 \<lparr> success = True, shape_type = None, is_simple_rectangle = Some False,
         total_area_m2 = Some 0 \<rparr> = Some 0
   \<and> validateAreaCalculation 50
       \<lparr> success = True, shape_type = None, is_simple_rectangle = Some False,
         total_area_m2 = Some 0 \<rparr> None =
       \<lparr> isValid = True, pythonArea = 0, difference = 0, differencePercent = 0,
         recommendation = use_ai, message = PythonUnavailable \<rparr>"
  using zero_secondary_is_unavailable
    [of "\<lparr> success = True, shape_type = None, is_simple_rectangle = Some False,
         total_area_m2 = Some 0 \<rparr>" 50 None]
  by simp

subsection \<open>Negative areas\<close>




subsection \<open>The validation record of a document\<close>

lemma attachValidation_validation:
  "validation (attachValidation probe a) = Some v \<Longrightarrow> validation a = None \<Longrightarrow>
     pythonUsed v = False \<and> info_recommendation v = None"
  by (auto simp: attachValidation_def validationInfo_def split: if_splits sum.splits)

text \<open>
  Claim C7 says that a validation record with \<open>secondaryUsed = false\<close> has the
  recommendation \<open>UsePrimary\<close>. The record that \<open>analyzePdfWithGemini\<close> attaches to a
  roof-related document has \<open>pythonUsed = false\<close> and no recommendation at all.
\<close>

theorem validation_invariant_counterexample:
  "analyzePdfWithGemini None (Inr (Some ''{}'')) (\<lambda>t. Inr roofAnalysis) (Inr False)
     = Inr (roofAnalysis \<lparr> validation := Some (validationInfo
         ''Python validation unavailable - install Python dependencies to enable'') \<rparr>)
   \<and> pythonUsed (validationInfo
         ''Python validation unavailable - install Python dependencies to enable'') = False
   \<and> info_recommendation (validationInfo
         ''Python validation unavailable - install Python dependencies to enable'')
       \<noteq> Some use_ai"
  by (simp add: analyzePdfWithGemini_def attachValidation_def validationInfo_def
        string_or_empty_def falsy_number_def roofAnalysis_def)

text \<open>
  Claim C7, amended. When the parsed response carries no validation of its own, every
  validation record found on a result of \<open>analyzePdfWithGemini\<close> has
  \<open>pythonUsed = false\<close> and no recommendation; and the result of the unavailable branch
  of \<open>validateAreaCalculation\<close> (an unsuccessful estimate, or a missing or zero area)
  has the recommendation \<open>use_ai\<close>.
\<close>

theorem attached_validation_has_no_recommendation:
  "((\<forall>t a. parse t = Inr a \<longrightarrow> validation a = None)
      \<and> analyzePdfWithGemini base64 response parse probe = Inr res
      \<and> validation res = Some v
     \<longrightarrow> pythonUsed v = False \<and> info_recommendation v = None)
   \<and> (\<not> success r \<or> falsy_number (total_area_m2 r)
     \<longrightarrow> recommendation (validateAreaCalculation p r tol) = use_ai)"
proof (rule conjI; rule impI)
  assume h: "(\<forall>t a. parse t = Inr a \<longrightarrow> validation a = None)
      \<and> analyzePdfWithGemini base64 response parse probe = Inr res
      \<and> validation res = Some v"
  then obtain t a where a: "parse t = Inr a" and res: "res = attachValidation probe a"
    by (auto simp: analyzePdfWithGemini_def split: option.splits sum.splits if_splits)
  from h a have "validation a = None"
    by blast
  with h res show "pythonUsed v = False \<and> info_recommendation v = None"
    using attachValidation_validation [of probe a v] by simp
next
  assume "\<not> success r \<or> falsy_number (total_area_m2 r)"
  then show "recommendation (validateAreaCalculation p r tol) = use_ai"
    by (simp add: validateAreaCalculation_def unavailableResult_def)
qed


theorem attached_validation_has_no_recommendation_witness:
  "analyzePdfWithGemini None (Inr (Some ''{}'')) (\<lambda>t. Inr roofAnalysis) (Inr True)
     = Inr (roofAnalysis \<lparr> validation := Some (validationInfo
         ''Python validation available but requires server-side integration'') \<rparr>)
   \<and> pythonUsed (validationInfo
         ''Python validation available but requires server-side integration'') = False
   \<and> info_recommendation (validationInfo
         ''Python validation available but requires server-side integration'') = None
   \<and> \<not> success \<lparr> success = False, shape_type = None, is_simple_rectangle = None,
                   total_area_m2 = Some 100 \<rparr>
   \<and> recommendation (validateAreaCalculation 120
         \<lparr> success = False, shape_type = None, is_simple_rectangle = None,
           total_area_m2 = Some 100 \<rparr> None) = use_ai"
proof -
  let ?v = "validationInfo
             ''Python validation available but requires server-side integration''"
  let ?r = "\<lparr> success = False, shape_type = None, is_simple_rectangle = None,
           total_area_m2 = Some (100::real) \<rparr>"
  have e: "analyzePdfWithGemini None (Inr (Some ''{}'')) (\<lambda>t. Inr roofAnalysis) (Inr True)
             = Inr (roofAnalysis \<lparr> validation := Some ?v \<rparr>)"
    by (simp add: analyzePdfWithGemini_def attachValidation_def
          string_or_empty_def falsy_number_def roofAnalysis_def)
  have p: "\<forall>t a. (\<lambda>t. Inr roofAnalysis) t = (Inr a :: thrown + AnalysisResult)
             \<longrightarrow> validation a = None"
    by (simp add: roofAnalysis_def)
  have s: "\<not> success ?r"
    by simp
  note t = attached_validation_has_no_recommendation
    [of "\<lambda>t. Inr roofAnalysis" None "Inr (Some ''{}'')" "Inr True"
        "roofAnalysis \<lparr> validation := Some ?v \<rparr>" ?v ?r 120 None]
  from t p e have "pythonUsed ?v = False \<and> info_recommendation ?v = None"
    by simp
  moreover from t s have "recommendation (validateAreaCalculation 120 ?r None) = use_ai"
    by blast
  ultimately show ?thesis
    using e s by simp
qed

subsection \<open>The canonical key\<close>




























subsection \<open>The Map\<close>

lemma Map_get_set: "Map_get (Map_set kvs k v) k' = (if k' = k then Some v else Map_get kvs k')"
  by (induction kvs) auto

lemma Map_set_keys:
  "map fst (Map_set kvs k v) = (if Map_get kvs k = None then map fst kvs @ [k] else map fst kvs)"
  by (induction kvs) (auto split: if_splits)

lemma Map_get_None_iff: "Map_get kvs k = None \<longleftrightarrow> k \<notin> fst ` set kvs"
  by (induction kvs) (auto split: if_splits)

lemma Map_set_distinct: "distinct (map fst kvs) \<Longrightarrow> distinct (map fst (Map_set kvs k v))"
  by (simp add: Map_set_keys Map_get_None_iff)

lemma Map_get_member: "distinct (map fst kvs) \<Longrightarrow> (k, v) \<in> set kvs \<Longrightarrow> Map_get kvs k = Some v"
  by (induction kvs) (auto simp: rev_image_eqI split: if_splits)

subsection \<open>One step of the consolidation\<close>


lemma string_or_empty_eq: "string_or_empty x = (case x of None \<Rightarrow> [] | Some s \<Rightarrow> s)"
  by (simp add: string_or_empty_def split: option.splits)

lemma hasStringName_entryKey: "hasStringName mo \<longleftrightarrow> entryKey mo \<noteq> None"
  by (simp add: hasStringName_def entryKey_def split: option.splits js_value.splits)

lemma entryKey_SomeD:
  "entryKey mo = Some k \<Longrightarrow> \<exists>m n. mo = Some m \<and> material m = JString n \<and> k = canonicalize n"
  by (auto simp: entryKey_def split: option.splits js_value.splits)

lemma canonicalize_Nil: "canonicalize [] = []"
  by (simp add: canonicalize_def toLowerCase_def trim_def trimStart_def trimEnd_def)

lemma consolidateMaterial_skip: "entryKey mo = None \<Longrightarrow> consolidateMaterial f mm mo = mm"
  by (simp add: consolidateMaterial_def entryKey_def split: option.splits js_value.splits)

lemma consolidateMaterial_seen:
  assumes "material m = JString n" and "Map_get mm (canonicalize n) = Some e"
  shows "consolidateMaterial f mm (Some m) =
           Map_set mm (canonicalize n)
             (e \<lparr> cm_area := cm_area e + number_or_zero (area m),
                  cm_confidence :=
                    (cm_confidence e * real (length (sources e)) + number_or_zero (confidence m))
                    / (real (length (sources e)) + 1),
                  sources := sources e @ [f] \<rparr>)"
  using assms by (simp add: consolidateMaterial_def canonicalize_def)

lemma consolidateMaterial_unseen:
  assumes "material m = JString n" and "Map_get mm (canonicalize n) = None"
  shows "consolidateMaterial f mm (Some m) =
           Map_set mm (canonicalize n)
             \<lparr> cm_material = n, cm_code = string_or_empty (code m),
               cm_area = number_or_zero (area m), cm_unit = unit m,
               cm_confidence = number_or_zero (confidence m), sources = [f] \<rparr>"
  using assms by (simp add: consolidateMaterial_def canonicalize_def)

lemma consolidateMaterial_distinct:
  "distinct (map fst mm) \<Longrightarrow> distinct (map fst (consolidateMaterial f mm mo))"
  by (auto simp: consolidateMaterial_def Map_set_distinct Let_def
           split: option.splits js_value.splits)

lemma consolidateMaterial_kept:
  assumes "material m = JString n"
  shows "\<exists>e'. Map_get (consolidateMaterial f mm (Some m)) (canonicalize n) = Some e'
              \<and> last (sources e') = f"
proof (cases "Map_get mm (canonicalize n)")
  case None
  show ?thesis
    by (simp add: consolidateMaterial_unseen [OF assms None] Map_get_set)
next
  case (Some e)
  show ?thesis
    by (simp add: consolidateMaterial_seen [OF assms Some] Map_get_set)
qed

lemma consolidateMaterial_frame:
  assumes m: "material m = JString n" and e: "Map_get mm (canonicalize n) = Some e"
  shows "\<exists>e'. Map_get (consolidateMaterial f mm (Some m)) (canonicalize n) = Some e'
              \<and> cm_material e' = cm_material e \<and> cm_code e' = cm_code e
              \<and> cm_unit e' = cm_unit e"
    and "\<forall>k. k \<noteq> canonicalize n \<longrightarrow>
              Map_get (consolidateMaterial f mm (Some m)) k = Map_get mm k"
    and "map fst (consolidateMaterial f mm (Some m)) = map fst mm"
  by (simp_all add: consolidateMaterial_seen [OF m e] Map_get_set Map_set_keys e)



subsection \<open>Entries that are skipped\<close>

lemma foldl_consolidateMaterial_filter:
  "foldl (consolidateMaterial f) mm (filter hasStringName ms) = foldl (consolidateMaterial f) mm ms"
  by (induction ms arbitrary: mm)
     (simp_all add: hasStringName_entryKey consolidateMaterial_skip)

lemma consolidateResult_withoutSkipped:
  "consolidateResult mm (withoutSkipped r) = consolidateResult mm r"
  by (simp add: consolidateResult_def withoutSkipped_def foldl_consolidateMaterial_filter
           split: option.splits)

lemma foldl_consolidateResult_withoutSkipped:
  "foldl consolidateResult mm (map withoutSkipped rs) = foldl consolidateResult mm rs"
  by (induction rs arbitrary: mm) (simp_all add: consolidateResult_withoutSkipped)

lemma filter_withoutSkipped:
  "filter isRoofRelated (map withoutSkipped rs) = map withoutSkipped (filter isRoofRelated rs)"
  by (induction rs) (simp_all add: withoutSkipped_def)

lemma getConsolidatedSummary_withoutSkipped:
  "getConsolidatedSummary (map withoutSkipped rs) = getConsolidatedSummary rs"
  by (simp add: getConsolidatedSummary_def filter_withoutSkipped
        foldl_consolidateResult_withoutSkipped Let_def)

text \<open>
  Claim C4 says that an entry whose name is the empty string is dropped like an entry
  without a name. It is not: the test of the consolidation is \<open>typeof\<close>, the empty
  string is a string, and a document whose only entry has the empty name gives a
  consolidated material with that name and the entry's area.
\<close>

theorem empty_name_counterexample:
  "getConsolidatedSummary
     [\<lparr> isRoofRelated = True, documentType = ''roof plan'', language = ''Dutch'',
        scale = ''1:100'',
        materials = Some [Some \<lparr> material = JString [], code = None, area = Some 50,
                                 unit = Some ''m2'', confidence = Some (8 / 10),
                                 notes' = None \<rparr>],
        summary = None, validation = None, fileName = ''a.pdf'' \<rparr>]
   = Some \<lparr> cs_materials =
              [\<lparr> cm_material = [], cm_code = [], cm_area = 50, cm_unit = Some ''m2'',
                 cm_confidence = 8 / 10, sources = [''a.pdf''] \<rparr>],
            cs_totalArea = 50, roofPlanCount = 1, totalPlanCount = 1 \<rparr>"
  by code_simp

text \<open>
  Claim C4, amended. An element that is \<open>null\<close> or whose name is not a string is
  skipped: the step leaves the map as it is, so nothing fails, and taking all such
  elements out of every document does not change the consolidated summary. An entry
  whose name is the empty string is not skipped: after the step the key \<open>''\<close> has a
  group, with the document as its last source.
\<close>

theorem entries_without_string_name_are_skipped:
  "(\<not> hasStringName mo \<longrightarrow> consolidateMaterial f mm mo = mm)
   \<and> getConsolidatedSummary (map withoutSkipped rs) = getConsolidatedSummary rs
   \<and> (material m = JString [] \<longrightarrow>
        (\<exists>e'. Map_get (consolidateMaterial f mm (Some m)) [] = Some e'
              \<and> last (sources e') = f))"
  using consolidateMaterial_kept [of m "[]" f mm]
  by (simp add: hasStringName_entryKey consolidateMaterial_skip
        getConsolidatedSummary_withoutSkipped canonicalize_Nil)

theorem entries_without_string_name_are_skipped_witness:
  "\<not> hasStringName None
   \<and> consolidateMaterial ''d.pdf'' [(''epdm'', epdmGroup)] None = [(''epdm'', epdmGroup)]
   \<and> getConsolidatedSummary [malformedDoc] =
       Some \<lparr> cs_materials =
                [\<lparr> cm_material = ''Bitumen'', cm_code = [], cm_area = 0, cm_unit = None,
                   cm_confidence = 0, sources = [''d.pdf''] \<rparr>],
              cs_totalArea = 0, roofPlanCount = 1, totalPlanCount = 1 \<rparr>
   \<and> getConsolidatedSummary (map withoutSkipped [malformedDoc]) =
       getConsolidatedSummary [malformedDoc]
   \<and> materials (withoutSkipped malformedDoc) =
       Some [Some \<lparr> material = JString ''Bitumen'', code = None, area = None,
                    unit = None, confidence = None, notes' = None \<rparr>]"
proof -
  note t = entries_without_string_name_are_skipped
    [of None "''d.pdf''" "[(''epdm'', epdmGroup)]" "[malformedDoc]"]
  have h: "\<not> hasStringName None"
    by (simp add: hasStringName_def)
  from t h have a: "consolidateMaterial ''d.pdf'' [(''epdm'', epdmGroup)] None
                      = [(''epdm'', epdmGroup)]"
    by blast
  from t have b: "getConsolidatedSummary (map withoutSkipped [malformedDoc]) =
       getConsolidatedSummary [malformedDoc]"
    by blast
  have c: "getConsolidatedSummary [malformedDoc] =
       Some \<lparr> cs_materials =
                [\<lparr> cm_material = ''Bitumen'', cm_code = [], cm_area = 0, cm_unit = None,
                   cm_confidence = 0, sources = [''d.pdf''] \<rparr>],
              cs_totalArea = 0, roofPlanCount = 1, totalPlanCount = 1 \<rparr>"
    by code_simp
  have d: "materials (withoutSkipped malformedDoc) =
       Some [Some \<lparr> material = JString ''Bitumen'', code = None, area = None,
                    unit = None, confidence = None, notes' = None \<rparr>]"
    by (simp add: withoutSkipped_def malformedDoc_def hasStringName_def)
  from h a c b d show ?thesis
    by blast
qed

subsection \<open>The consolidated summary\<close>

lemma foldl_add: "foldl (\<lambda>acc m. acc + f m) (a::real) xs = a + sum_list (map f xs)"
  by (induction xs arbitrary: a) simp_all

text \<open>
  Claim C8. The consolidated summary is absent exactly when no document is roof
  related, the empty list included. Otherwise its total area is the sum of the areas of
  its consolidated materials, its \<open>roofPlanCount\<close> is the number of roof-related
  documents and its \<open>totalPlanCount\<close> is the number of documents.
\<close>

theorem consolidated_summary_absent_or_totals:
  "(getConsolidatedSummary rs = None \<longleftrightarrow> (\<forall>r \<in> set rs. \<not> isRoofRelated r))
   \<and> (\<forall>s. getConsolidatedSummary rs = Some s \<longrightarrow>
          cs_totalArea s = sum_list (map cm_area (cs_materials s))
        \<and> roofPlanCount s = length (filter isRoofRelated rs)
        \<and> totalPlanCount s = length rs)"
  by (auto simp: getConsolidatedSummary_def Let_def foldl_add filter_empty_conv)

theorem consolidated_summary_absent_or_totals_witness:
  "getConsolidatedSummary [] = None
   \<and> getConsolidatedSummary [sitePlanDoc] = None
   \<and> getConsolidatedSummary [epdmDocA, sitePlanDoc] =
       Some \<lparr> cs_materials = [epdmGroup], cs_totalArea = 50,
              roofPlanCount = 1, totalPlanCount = 2 \<rparr>
   \<and> sum_list (map cm_area [epdmGroup]) = 50
   \<and> length (filter isRoofRelated [epdmDocA, sitePlanDoc]) = 1"
proof -
  let ?s = "\<lparr> cs_materials = [epdmGroup], cs_totalArea = 50,
              roofPlanCount = 1, totalPlanCount = 2 \<rparr>"
  have a: "getConsolidatedSummary [] = None"
    using consolidated_summary_absent_or_totals [of "[]"] by simp
  have b: "getConsolidatedSummary [sitePlanDoc] = None"
    using consolidated_summary_absent_or_totals [of "[sitePlanDoc]"]
    by (simp add: sitePlanDoc_def)
  have c: "getConsolidatedSummary [epdmDocA, sitePlanDoc] = Some ?s"
    by code_simp
  from consolidated_summary_absent_or_totals [of "[epdmDocA, sitePlanDoc]"] c
  have "cs_totalArea ?s = sum_list (map cm_area (cs_materials ?s))
        \<and> roofPlanCount ?s = length (filter isRoofRelated [epdmDocA, sitePlanDoc])"
    by blast
  then have "sum_list (map cm_area [epdmGroup]) = 50
        \<and> length (filter isRoofRelated [epdmDocA, sitePlanDoc]) = 1"
    by simp
  with a b c show ?thesis
    by blast
qed

subsection \<open>The names of a group\<close>

lemma find_SomeD: "find P xs = Some y \<Longrightarrow> P y"
  by (induction xs) (auto split: if_splits)

lemma find_snoc:
  "find P (xs @ [x]) = (case find P xs of None \<Rightarrow> (if P x then Some x else None) | Some y \<Rightarrow> Some y)"
  by (induction xs) simp_all

lemma seedNames_entryKey: "entryKey (snd e) = Some k \<Longrightarrow> seedNames e \<noteq> None"
  by (auto simp: seedNames_def dest!: entryKey_SomeD)

lemma foldl_consolidateMaterial_entries:
  "foldl (consolidateMaterial f) mm ms =
     foldl (\<lambda>mm (f, mo). consolidateMaterial f mm mo) mm (map (Pair f) ms)"
  by (induction ms arbitrary: mm) simp_all

lemma foldl_consolidateResult_entries:
  "foldl consolidateResult mm rs =
     foldl (\<lambda>mm (f, mo). consolidateMaterial f mm mo) mm
       (concat (map (\<lambda>r. case materials r of
                         None \<Rightarrow> []
                       | Some ms \<Rightarrow> map (Pair (fileName r)) ms) rs))"
proof (induction rs arbitrary: mm)
  case Nil
  show ?case by simp
next
  case (Cons r rs)
  have "consolidateResult mm r =
          foldl (\<lambda>mm (f, mo). consolidateMaterial f mm mo) mm
            (case materials r of None \<Rightarrow> [] | Some ms \<Rightarrow> map (Pair (fileName r)) ms)"
    by (cases "materials r")
       (simp_all add: consolidateResult_def foldl_consolidateMaterial_entries)
  then show ?case
    by (simp add: Cons)
qed

lemma entries_distinct:
  "distinct (map fst (foldl (\<lambda>mm (f, mo). consolidateMaterial f mm mo) [] es))"
proof (induction es rule: rev_induct)
  case Nil
  show ?case by simp
next
  case (snoc x es)
  then show ?case
    by (cases x) (simp add: consolidateMaterial_distinct)
qed

lemma entries_first_seen:
  "map_option groupNames (Map_get (foldl (\<lambda>mm (f, mo). consolidateMaterial f mm mo) [] es) k)
     = (case find (\<lambda>(f, mo). entryKey mo = Some k) es of
          None \<Rightarrow> None
        | Some e \<Rightarrow> seedNames e)"
proof (induction es rule: rev_induct)
  case Nil
  show ?case by simp
next
  case (snoc x es)
  obtain f mo where x: "x = (f, mo)"
    by (cases x)
  define mm where "mm = foldl (\<lambda>mm (f, mo). consolidateMaterial f mm mo) [] es"
  have ih: "map_option groupNames (Map_get mm k)
     = (case find (\<lambda>(f, mo). entryKey mo = Some k) es of
          None \<Rightarrow> None
        | Some e \<Rightarrow> seedNames e)"
    unfolding mm_def by (rule snoc)
  have step: "foldl (\<lambda>mm (f, mo). consolidateMaterial f mm mo) [] (es @ [x])
                = consolidateMaterial f mm mo"
    by (simp add: x mm_def)
  have found: "seedNames y \<noteq> None"
    if "find (\<lambda>(f, mo). entryKey mo = Some k) es = Some y" for y
    using find_SomeD [OF that] seedNames_entryKey [of y k] by (simp add: case_prod_beta)
  show ?case
  proof (cases "entryKey mo")
    case None
    then show ?thesis
      unfolding step
      by (simp add: consolidateMaterial_skip ih find_snoc x split: option.splits)
  next
    case (Some k0)
    then obtain m n where m: "mo = Some m" "material m = JString n" "k0 = canonicalize n"
      by (auto dest: entryKey_SomeD)
    show ?thesis
    proof (cases "Map_get mm k0")
      case None
      note new = consolidateMaterial_unseen [OF m(2) None [unfolded m(3)], of f]
      show ?thesis
      proof (cases "k = k0")
        case True
        with None ih have "find (\<lambda>(f, mo). entryKey mo = Some k) es = None"
          using found by (cases "find (\<lambda>(f, mo). entryKey mo = Some k) es") auto
        then show ?thesis
          unfolding step using True Some
          by (simp add: m(1) new Map_get_set find_snoc x m(3) groupNames_def seedNames_def m(2))
      next
        case False
        then show ?thesis
          unfolding step using Some
          by (simp add: m(1) new Map_get_set find_snoc x m(3) [symmetric] ih
                   split: option.splits)
      qed
    next
      case (Some e)
      note old = consolidateMaterial_seen [OF m(2) Some [unfolded m(3)], of f]
      show ?thesis
      proof (cases "k = k0")
        case True
        with Some ih obtain y where "find (\<lambda>(f, mo). entryKey mo = Some k) es = Some y"
          and "seedNames y = Some (groupNames e)"
          by (auto split: option.splits)
        then show ?thesis
          unfolding step using True
          by (simp add: m(1) old Map_get_set find_snoc m(3) groupNames_def)
      next
        case False
        then show ?thesis
          unfolding step using \<open>entryKey mo = Some k0\<close>
          by (simp add: m(1) old Map_get_set find_snoc x m(3) [symmetric] ih
                   split: option.splits)
      qed
    qed
  qed
qed

lemma getConsolidatedSummary_materials:
  assumes "getConsolidatedSummary rs = Some s"
  shows "cs_materials s =
           Map_values (foldl (\<lambda>mm (f, mo). consolidateMaterial f mm mo) [] (materialEntries rs))"
  using assms
  by (auto simp: getConsolidatedSummary_def Let_def materialEntries_def
        foldl_consolidateResult_entries split: if_splits)

lemma consolidated_first_seen:
  assumes s: "getConsolidatedSummary rs = Some s" and c: "c \<in> set (cs_materials s)"
  shows "\<exists>f m. firstSeen (canonicalize (cm_material c)) rs = Some (f, Some m)
              \<and> material m = JString (cm_material c)
              \<and> cm_code c = (case code m of None \<Rightarrow> [] | Some x \<Rightarrow> x)
              \<and> cm_unit c = unit m"
proof -
  define mm where
    "mm = foldl (\<lambda>mm (f, mo). consolidateMaterial f mm mo) [] (materialEntries rs)"
  from c obtain k where "(k, c) \<in> set mm"
    unfolding getConsolidatedSummary_materials [OF s] mm_def [symmetric] Map_values_def
    by auto
  moreover have "distinct (map fst mm)"
    unfolding mm_def by (rule entries_distinct)
  ultimately have g: "Map_get mm k = Some c"
    by (simp add: Map_get_member)
  have "map_option groupNames (Map_get mm k)
     = (case find (\<lambda>(f, mo). entryKey mo = Some k) (materialEntries rs) of
          None \<Rightarrow> None
        | Some e \<Rightarrow> seedNames e)"
    unfolding mm_def by (rule entries_first_seen)
  with g obtain e where e: "find (\<lambda>(f, mo). entryKey mo = Some k) (materialEntries rs) = Some e"
    and n: "seedNames e = Some (groupNames c)"
    by (auto split: option.splits)
  obtain f mo where fm: "e = (f, mo)"
    by (cases e)
  from find_SomeD [OF e] fm have "entryKey mo = Some k"
    by simp
  then obtain m n where m: "mo = Some m" "material m = JString n" "k = canonicalize n"
    by (auto dest: entryKey_SomeD)
  from n fm m have eq: "cm_material c = n" "cm_code c = string_or_empty (code m)"
      "cm_unit c = unit m"
    by (simp_all add: seedNames_def groupNames_def)
  have "firstSeen (canonicalize (cm_material c)) rs = Some (f, Some m)"
    using e fm m eq(1) by (simp add: firstSeen_def)
  with m(2) eq show ?thesis
    by (auto simp: string_or_empty_eq)
qed

text \<open>
  Claim C10. A merge into a group that exists changes only the area, the confidence and
  the sources: the name, the code and the unit of the group stay, the other groups stay,
  and so does the order of the keys. Hence every consolidated material of a summary has
  the name, the code (or the empty string) and the unit of the first entry visited with
  its key, whatever the later entries with that key carry.
\<close>

theorem merge_keeps_first_seen_names:
  "(material m = JString n \<and> Map_get mm (canonicalize n) = Some e \<longrightarrow>
      (\<exists>e'. Map_get (consolidateMaterial f mm (Some m)) (canonicalize n) = Some e'
            \<and> cm_material e' = cm_material e \<and> cm_code e' = cm_code e
            \<and> cm_unit e' = cm_unit e)
      \<and> (\<forall>k. k \<noteq> canonicalize n \<longrightarrow>
              Map_get (consolidateMaterial f mm (Some m)) k = Map_get mm k)
      \<and> map fst (consolidateMaterial f mm (Some m)) = map fst mm)
   \<and> (getConsolidatedSummary rs = Some s \<and> c \<in> set (cs_materials s) \<longrightarrow>
        (\<exists>f' m'. firstSeen (canonicalize (cm_material c)) rs = Some (f', Some m')
              \<and> material m' = JString (cm_material c)
              \<and> cm_code c = (case code m' of None \<Rightarrow> [] | Some x \<Rightarrow> x)
              \<and> cm_unit c = unit m'))"
proof (rule conjI; rule impI)
  assume h: "material m = JString n \<and> Map_get mm (canonicalize n) = Some e"
  then have m: "material m = JString n" and e: "Map_get mm (canonicalize n) = Some e"
    by simp_all
  show "(\<exists>e'. Map_get (consolidateMaterial f mm (Some m)) (canonicalize n) = Some e'
            \<and> cm_material e' = cm_material e \<and> cm_code e' = cm_code e
            \<and> cm_unit e' = cm_unit e)
      \<and> (\<forall>k. k \<noteq> canonicalize n \<longrightarrow>
              Map_get (consolidateMaterial f mm (Some m)) k = Map_get mm k)
      \<and> map fst (consolidateMaterial f mm (Some m)) = map fst mm"
    by (intro conjI consolidateMaterial_frame [OF m e])
next
  assume "getConsolidatedSummary rs = Some s \<and> c \<in> set (cs_materials s)"
  then show "\<exists>f' m'. firstSeen (canonicalize (cm_material c)) rs = Some (f', Some m')
              \<and> material m' = JString (cm_material c)
              \<and> cm_code c = (case code m' of None \<Rightarrow> [] | Some x \<Rightarrow> x)
              \<and> cm_unit c = unit m'"
    using consolidated_first_seen [of rs s c] by blast
qed

theorem merge_keeps_first_seen_names_witness:
  "material epdmEntryB = JString '' epdm ''
   \<and> Map_get [(''epdm'', epdmGroup)] (canonicalize '' epdm '') = Some epdmGroup
   \<and> map fst (consolidateMaterial ''b.pdf'' [(''epdm'', epdmGroup)] (Some epdmEntryB)) = [''epdm'']
   \<and> getConsolidatedSummary [epdmDocA, epdmDocB] =
       Some \<lparr> cs_materials =
                [\<lparr> cm_material = ''EPDM'', cm_code = ''DRL'', cm_area = 80,
                   cm_unit = Some ''m2'', cm_confidence = 7 / 10,
                   sources = [''a.pdf'', ''b.pdf''] \<rparr>],
              cs_totalArea = 80, roofPlanCount = 2, totalPlanCount = 2 \<rparr>
   \<and> firstSeen (canonicalize ''EPDM'') [epdmDocA, epdmDocB] =
       Some (''a.pdf'', Some \<lparr> material = JString ''EPDM'', code = Some ''DRL'',
                                area = Some 50, unit = Some ''m2'',
                                confidence = Some (8 / 10), notes' = None \<rparr>)"
proof -
  let ?c = "\<lparr> cm_material = ''EPDM'', cm_code = ''DRL'', cm_area = 80,
                   cm_unit = Some ''m2'', cm_confidence = 7 / 10,
                   sources = [''a.pdf'', ''b.pdf''] \<rparr>"
  let ?s = "\<lparr> cs_materials = [?c], cs_totalArea = 80, roofPlanCount = 2,
              totalPlanCount = 2 \<rparr>"
  have k: "canonicalize '' epdm '' = ''epdm''"
    by code_simp
  have m: "material epdmEntryB = JString '' epdm ''"
    by (simp add: epdmEntryB_def)
  have g: "Map_get [(''epdm'', epdmGroup)] (canonicalize '' epdm '') = Some epdmGroup"
    by (simp add: k)
  have s: "getConsolidatedSummary [epdmDocA, epdmDocB] = Some ?s"
    by code_simp
  have c: "?c \<in> set (cs_materials ?s)"
    by simp
  note t = merge_keeps_first_seen_names
    [of epdmEntryB "'' epdm ''" "[(''epdm'', epdmGroup)]" epdmGroup "''b.pdf''"
        "[epdmDocA, epdmDocB]" ?s ?c]
  from t m g
  have "map fst (consolidateMaterial ''b.pdf'' [(''epdm'', epdmGroup)] (Some epdmEntryB))
          = map fst [(''epdm'', epdmGroup)]"
    by blast
  then have a: "map fst (consolidateMaterial ''b.pdf'' [(''epdm'', epdmGroup)] (Some epdmEntryB))
                  = [''epdm'']"
    by simp
  have b: "firstSeen (canonicalize ''EPDM'') [epdmDocA, epdmDocB] =
       Some (''a.pdf'', Some \<lparr> material = JString ''EPDM'', code = Some ''DRL'',
                                area = Some 50, unit = Some ''m2'',
                                confidence = Some (8 / 10), notes' = None \<rparr>)"
    by code_simp
  from m g a s b show ?thesis
    by blast
qed

subsection \<open>The batch run\<close>

declare analyzePDFs_loop.simps [simp del]

lemma analyzePDFs_loop_fails:
  assumes "i \<le> k" and "k < length (files st)"
    and "\<forall>j. i \<le> j \<and> j < k \<longrightarrow> analyze j = Inr (a j)"
    and "analyze k = Inl e"
    and "results st = allResults"
  shows "fst (analyzePDFs_loop analyze i allResults st) = Some e
       \<and> results (snd (analyzePDFs_loop analyze i allResults st)) =
           allResults @ map (\<lambda>j. resultFile (name (files st ! j)) (a j)) [i..<k]
       \<and> error (snd (analyzePDFs_loop analyze i allResults st)) = error st"
  using assms
proof (induction "k - i" arbitrary: i allResults st)
  case 0
  then have "i = k" by simp
  with 0 show ?case
    by (subst (1 2 3) analyzePDFs_loop.simps) (simp add: Let_def)
next
  case (Suc d)
  then have lt: "i < k" and ai: "analyze i = Inr (a i)"
    by auto
  let ?all = "allResults @ [resultFile (name (files st ! i)) (a i)]"
  let ?st = "st \<lparr> analysisStage := Analyzing (i + 1) (length (files st)) (name (files st ! i)),
                  results := ?all \<rparr>"
  have step: "analyzePDFs_loop analyze i allResults st = analyzePDFs_loop analyze (i + 1) ?all ?st"
    using lt Suc.prems(2) ai by (subst analyzePDFs_loop.simps) (simp add: Let_def)
  have ih: "fst (analyzePDFs_loop analyze (i + 1) ?all ?st) = Some e
       \<and> results (snd (analyzePDFs_loop analyze (i + 1) ?all ?st)) =
           ?all @ map (\<lambda>j. resultFile (name (files ?st ! j)) (a j)) [i + 1..<k]
       \<and> error (snd (analyzePDFs_loop analyze (i + 1) ?all ?st)) = error ?st"
    using Suc.hyps(2) lt Suc.prems by (intro Suc.hyps(1)) auto
  show ?case
    unfolding step using ih lt by (simp add: upt_conv_Cons)
qed

text \<open>
  Claim C3. When the analysis of the document at index \<open>k\<close> fails and those before it
  succeed, the run ends with exactly the \<open>k\<close> records of the documents before it in
  \<open>results\<close>, in order, with the error message set and \<open>processing\<close> off; nothing is
  recorded for the failing document. In particular a batch of three files whose second
  analysis fails ends with one record.
\<close>

theorem batch_failure_keeps_completed:
  "k < length (files st) \<and> (\<forall>j<k. analyze j = Inr (a j)) \<and> analyze k = Inl e \<longrightarrow>
     results (analyzePDFs analyze st) =
       map (\<lambda>j. resultFile (name (files st ! j)) (a j)) [0..<k]
   \<and> length (results (analyzePDFs analyze st)) = k
   \<and> error (analyzePDFs analyze st) =
       Some (case e of
               Error msg \<Rightarrow> ''Analysis failed: '' @ msg
             | NotAnError \<Rightarrow> ''An unknown error occurred.'')
   \<and> processing (analyzePDFs analyze st) = False"
proof (rule impI)
  assume h: "k < length (files st) \<and> (\<forall>j<k. analyze j = Inr (a j)) \<and> analyze k = Inl e"
  let ?st0 = "st \<lparr> processing := True, error := None, results := [] \<rparr>"
  obtain thrown' st1 where l: "analyzePDFs_loop analyze 0 [] ?st0 = (thrown', st1)"
    by (cases "analyzePDFs_loop analyze 0 [] ?st0")
  have "fst (analyzePDFs_loop analyze 0 [] ?st0) = Some e
       \<and> results (snd (analyzePDFs_loop analyze 0 [] ?st0)) =
           [] @ map (\<lambda>j. resultFile (name (files ?st0 ! j)) (a j)) [0..<k]
       \<and> error (snd (analyzePDFs_loop analyze 0 [] ?st0)) = error ?st0"
    using h by (intro analyzePDFs_loop_fails) simp_all
  with l have t: "thrown' = Some e"
    and r: "results st1 = map (\<lambda>j. resultFile (name (files st ! j)) (a j)) [0..<k]"
    by simp_all
  from h have "length (files st) \<noteq> 0"
    by auto
  then have "analyzePDFs analyze st =
          st1 \<lparr> error := Some (case e of
                                 Error msg \<Rightarrow> ''Analysis failed: '' @ msg
                               | NotAnError \<Rightarrow> ''An unknown error occurred.''),
                analysisStage := NoStage, processing := False \<rparr>"
    by (simp add: analyzePDFs_def l t)
  then show "results (analyzePDFs analyze st) =
       map (\<lambda>j. resultFile (name (files st ! j)) (a j)) [0..<k]
   \<and> length (results (analyzePDFs analyze st)) = k
   \<and> error (analyzePDFs analyze st) =
       Some (case e of
               Error msg \<Rightarrow> ''Analysis failed: '' @ msg
             | NotAnError \<Rightarrow> ''An unknown error occurred.'')
   \<and> processing (analyzePDFs analyze st) = False"
    by (simp add: r)
qed

theorem batch_failure_keeps_completed_witness:
  "1 < length (files threeFiles)
   \<and> failsAtSecond 0 = Inr plainAnalysis
   \<and> failsAtSecond 1 = Inl (Error ''Gemini API error: 500'')
   \<and> results (analyzePDFs failsAtSecond threeFiles) = [resultFile ''a.pdf'' plainAnalysis]
   \<and> length (results (analyzePDFs failsAtSecond threeFiles)) = 1
   \<and> error (analyzePDFs failsAtSecond threeFiles) =
       Some ''Analysis failed: Gemini API error: 500''"
proof -
  have a: "1 < length (files threeFiles)"
    by (simp add: threeFiles_def)
  have b: "\<forall>j<1. failsAtSecond j = Inr plainAnalysis"
    by (simp add: failsAtSecond_def)
  have c: "failsAtSecond 1 = Inl (Error ''Gemini API error: 500'')"
    by (simp add: failsAtSecond_def)
  from batch_failure_keeps_completed
    [of 1 threeFiles failsAtSecond "\<lambda>j. plainAnalysis" "Error ''Gemini API error: 500''"] a b c
  have "results (analyzePDFs failsAtSecond threeFiles) =
          map (\<lambda>j. resultFile (name (files threeFiles ! j)) plainAnalysis) [0..<1]
        \<and> length (results (analyzePDFs failsAtSecond threeFiles)) = 1
        \<and> error (analyzePDFs failsAtSecond threeFiles) =
            Some (case Error ''Gemini API error: 500'' of
               Error msg \<Rightarrow> ''Analysis failed: '' @ msg
             | NotAnError \<Rightarrow> ''An unknown error occurred.'')"
    by blast
  then have "results (analyzePDFs failsAtSecond threeFiles) = [resultFile ''a.pdf'' plainAnalysis]
        \<and> length (results (analyzePDFs failsAtSecond threeFiles)) = 1
        \<and> error (analyzePDFs failsAtSecond threeFiles) =
            Some ''Analysis failed: Gemini API error: 500''"
    by (simp add: threeFiles_def)
  moreover have "failsAtSecond 0 = Inr plainAnalysis"
    by (simp add: failsAtSecond_def)
  ultimately show ?thesis
    using a c by blast
qed

end
